theory Spec2Isabelle
  imports Complex_Main "HOL-Library.Sublist"
begin

section \<open>Billboard compliance core: geofence, rules engine, size estimation\<close>

text \<open>
  A shallow embedding of \<^verbatim>\<open>backend/app/geofence.py\<close>, \<^verbatim>\<open>backend/app/rules.py\<close> and
  \<^verbatim>\<open>backend/app/size_estimation.py\<close>.

  Conventions of the embedding.
  \<^item> A Python \<^verbatim>\<open>float\<close> is a \<^typ>\<open>real\<close>: comparisons and arithmetic are exact, and
    neither NaN nor the infinities exist. A division raises \<^verbatim>\<open>ZeroDivisionError\<close> in Python
    when the divisor is zero; every such division is a branch of the model.
  \<^item> A Python \<^verbatim>\<open>str\<close> is a \<^typ>\<open>string\<close>, one \<^typ>\<open>char\<close> per code point below 256
    (the superscript two of the reason strings is code point \<open>0xB2\<close>).
  \<^item> An exception is a value \<open>Inl e\<close> of the result type \<open>py_error + 'a\<close>.
  \<^item> A dict with fixed keys is a record; a dict with free keys is an association list
    of \<open>pyval\<close>s in insertion order.
  \<^item> An f-string that prints a float with \<^verbatim>\<open>repr\<close> is kept as its list of pieces
    (\<open>fstring\<close>); \<open>render\<close> turns it into the string, given the \<^verbatim>\<open>repr\<close> of floats.
    The formats \<^verbatim>\<open>:.1f\<close> and \<^verbatim>\<open>:.0f\<close> are computed (round half to even on the exact value).
\<close>

subsection \<open>Python values, errors and formatting\<close>

datatype py_error = IndexError | ZeroDivisionError | AttributeError | UnboundLocalError
  | NanOutsideModel

datatype piece = Lit string | F0 real | F1 real | Repr real

type_synonym fstring = "piece list"

datatype pyval = PNone | PBool bool | PInt int | PFloat real | PStr string
  | PText fstring | PList "pyval list"

fun digits :: "nat \<Rightarrow> string" where
  "digits n = (if n < 10 then [char_of (48 + n)]
               else digits (n div 10) @ [char_of (48 + n mod 10)])"

declare digits.simps [simp del]

definition str_int :: "int \<Rightarrow> string" where
  "str_int i = (if i < 0 then ''-'' @ digits (nat (- i)) else digits (nat i))"

definition round_half_even :: "real \<Rightarrow> int" where
  "round_half_even r =
     (let f = \<lfloor>r\<rfloor>; d = r - of_int f
      in if d < 1 / 2 then f else if 1 / 2 < d then f + 1
         else if even f then f else f + 1)"

text \<open>\<^verbatim>\<open>round(x, 1)\<close>.\<close>

definition py_round1 :: "real \<Rightarrow> real" where
  "py_round1 x = of_int (round_half_even (x * 10)) / 10"





text \<open>The tail of the reason strings, \<^verbatim>\<open>m\<close> followed by the superscript two.\<close>

definition m2 :: string where
  "m2 = [CHR ''m'', CHR 0xB2]"

text \<open>\<^verbatim>\<open>d.get(key, default)\<close> on a dict kept as an association list.\<close>

definition dict_get :: "(string \<times> pyval) list \<Rightarrow> string \<Rightarrow> pyval \<Rightarrow> pyval" where
  "dict_get d k dflt = (case map_of d k of None \<Rightarrow> dflt | Some v \<Rightarrow> v)"

subsection \<open>Geometry: haversine distance and the ray-casting test\<close>

text \<open>\<^verbatim>\<open>math.radians\<close>.\<close>

definition radians :: "real \<Rightarrow> real" where
  "radians d = d * pi / 180"

text \<open>
  \<^verbatim>\<open>_haversine_distance\<close>, the same text in \<^verbatim>\<open>geofence.py\<close> and \<^verbatim>\<open>rules.py\<close>.
  \<open>haversine_a\<close> is the local \<^verbatim>\<open>a\<close>; it lies in \<open>[0, 1]\<close> (lemma \<open>haversine_a_range\<close>),
  so \<^verbatim>\<open>math.sqrt\<close> and \<^verbatim>\<open>math.asin\<close> are inside their domains and raise nothing.
\<close>

definition haversine_a :: "real \<Rightarrow> real \<Rightarrow> real \<Rightarrow> real \<Rightarrow> real" where
  "haversine_a lat1 lon1 lat2 lon2 =
     (let lat1_rad = radians lat1;
          lat2_rad = radians lat2;
          delta_lat = radians (lat2 - lat1);
          delta_lon = radians (lon2 - lon1)
      in (sin (delta_lat / 2))\<^sup>2 + cos lat1_rad * cos lat2_rad * (sin (delta_lon / 2))\<^sup>2)"

definition haversine_distance :: "real \<Rightarrow> real \<Rightarrow> real \<Rightarrow> real \<Rightarrow> real" where
  "haversine_distance lat1 lon1 lat2 lon2 =
     (let R = 6371000;
          a = haversine_a lat1 lon1 lat2 lon2;
          c = 2 * arcsin (sqrt a)
      in R * c)"

text \<open>
  One iteration of the loop of \<^verbatim>\<open>_point_in_polygon\<close>, on the edge from \<open>p1\<close> to \<open>p2\<close>.
  The state is \<^verbatim>\<open>inside\<close> and \<^verbatim>\<open>xinters\<close>; the latter is unbound (\<open>None\<close>) until the first
  assignment, and reading it unbound raises \<^verbatim>\<open>UnboundLocalError\<close>.
\<close>

definition edge_step ::
  "real \<Rightarrow> real \<Rightarrow> real \<times> real \<Rightarrow> real \<times> real \<Rightarrow> bool \<times> real option
     \<Rightarrow> py_error + (bool \<times> real option)" where
  "edge_step x y p1 p2 st =
     (case p1 of (p1x, p1y) \<Rightarrow> case p2 of (p2x, p2y) \<Rightarrow> case st of (inside, xinters) \<Rightarrow>
        if y > min p1y p2y \<and> y \<le> max p1y p2y \<and> x \<le> max p1x p2x then
          (let xinters' = (if p1y \<noteq> p2y
                           then Some ((y - p1y) * (p2x - p1x) / (p2y - p1y) + p1x)
                           else xinters)
           in if p1x = p2x then Inr (\<not> inside, xinters')
              else (case xinters' of
                      None \<Rightarrow> Inl UnboundLocalError
                    | Some xi \<Rightarrow> Inr (if x \<le> xi then \<not> inside else inside, xinters')))
        else Inr (inside, xinters))"

fun pip_loop ::
  "real \<Rightarrow> real \<Rightarrow> real \<times> real \<Rightarrow> (real \<times> real) list \<Rightarrow> bool \<times> real option
     \<Rightarrow> py_error + bool" where
  "pip_loop x y p1 [] st = Inr (fst st)"
| "pip_loop x y p1 (p2 # ps) st =
     (case edge_step x y p1 p2 st of
        Inl e \<Rightarrow> Inl e
      | Inr st' \<Rightarrow> pip_loop x y p2 ps st')"

text \<open>
  \<^verbatim>\<open>_point_in_polygon(lat, lon, polygon)\<close>: \<^verbatim>\<open>x, y = lon, lat\<close>; \<^verbatim>\<open>polygon[0]\<close> raises
  \<^verbatim>\<open>IndexError\<close> on the empty list; the loop visits \<^verbatim>\<open>polygon[i % n]\<close> for
  \<open>i = 1, \<dots>, n\<close>, that is the tail of the list and then its head. Each vertex is
  unpacked as \<^verbatim>\<open>(px, py)\<close>: its first component is compared with \<^verbatim>\<open>lon\<close>.
\<close>

definition point_in_polygon :: "real \<Rightarrow> real \<Rightarrow> (real \<times> real) list \<Rightarrow> py_error + bool" where
  "point_in_polygon lat lon polygon =
     (case polygon of
        [] \<Rightarrow> Inl IndexError
      | p0 # rest \<Rightarrow> pip_loop lon lat p0 (rest @ [p0]) (False, None))"

subsection \<open>Geofence engine (\<^verbatim>\<open>geofence.py\<close>)\<close>

text \<open>
  The dataclass \<^verbatim>\<open>GeofenceZone\<close>; its field \<^verbatim>\<open>name\<close> is \<open>zone_name\<close> here.
  \<^verbatim>\<open>special_rules\<close> defaults to \<^verbatim>\<open>None\<close>.
\<close>

record GeofenceZone =
  zone_id :: string
  zone_name :: string
  coordinates :: "(real \<times> real) list"
  max_billboards :: int
  size_limit_m2 :: real
  prohibited :: bool
  special_rules :: "(string \<times> pyval) list option"

text \<open>The state of a \<^verbatim>\<open>BillboardGeofence\<close> that the checks read: \<^verbatim>\<open>self.restricted_zones\<close>.\<close>

record BillboardGeofence =
  restricted_zones :: "GeofenceZone list"

definition load_restricted_zones :: "GeofenceZone list" where
  "load_restricted_zones =
     [\<lparr>zone_id = ''school_buffer_001'',
       zone_name = ''Government Model Senior Secondary School Buffer'',
       coordinates = [(30.3545, 76.3625), (30.3555, 76.3625), (30.3555, 76.3635),
                      (30.3545, 76.3635)],
       max_billboards = 0, size_limit_m2 = 0, prohibited = True,
       special_rules = Some [(''buffer_distance_m'', PInt 100),
                             (''reason'', PStr ''Educational institution protection'')]\<rparr>,
      \<lparr>zone_id = ''hospital_buffer_001'',
       zone_name = ''PGI Chandigarh Buffer Zone'',
       coordinates = [(30.3520, 76.3580), (30.3530, 76.3580), (30.3530, 76.3590),
                      (30.3520, 76.3590)],
       max_billboards = 0, size_limit_m2 = 0, prohibited = True,
       special_rules = Some [(''buffer_distance_m'', PInt 200),
                             (''reason'', PStr ''Healthcare facility protection'')]\<rparr>,
      \<lparr>zone_id = ''heritage_buffer_001'',
       zone_name = ''Rock Garden Heritage Site Buffer'',
       coordinates = [(30.3575, 76.3665), (30.3585, 76.3665), (30.3585, 76.3675),
                      (30.3575, 76.3675)],
       max_billboards = 2, size_limit_m2 = 20.0, prohibited = False,
       special_rules = Some [(''aesthetic_approval_required'', PBool True),
                             (''reason'', PStr ''Heritage site preservation'')]\<rparr>,
      \<lparr>zone_id = ''commercial_zone_001'',
       zone_name = ''Sector 17 Commercial Plaza'',
       coordinates = [(30.3640, 76.3720), (30.3660, 76.3720), (30.3660, 76.3740),
                      (30.3640, 76.3740)],
       max_billboards = 10, size_limit_m2 = 48.0, prohibited = False,
       special_rules = Some [(''premium_zone'', PBool True),
                             (''higher_fees'', PBool True)]\<rparr>]"

text \<open>\<^verbatim>\<open>BillboardGeofence.__init__\<close>.\<close>

definition geofence_init :: BillboardGeofence where
  "geofence_init = \<lparr>restricted_zones = load_restricted_zones\<rparr>"

text \<open>
  A violation dict of the geofence: the keys \<^verbatim>\<open>type\<close>, \<^verbatim>\<open>severity\<close> and \<^verbatim>\<open>reason\<close>, which
  every violation has, and the remaining keys in \<open>g_extra\<close>.
\<close>

record geo_violation =
  g_type :: string
  g_severity :: int
  g_reason :: fstring
  g_extra :: "(string \<times> pyval) list"

text \<open>
  The loop over \<^verbatim>\<open>self.restricted_zones\<close> in \<^verbatim>\<open>check_location_compliance\<close>: it stops
  (\<^verbatim>\<open>break\<close>) at the first zone whose polygon holds the point and returns
  \<^verbatim>\<open>zone_info\<close>, the violations so far and \<^verbatim>\<open>compliance_status\<close>.
  \<^verbatim>\<open>zone.special_rules.get\<close> raises \<^verbatim>\<open>AttributeError\<close> when \<^verbatim>\<open>special_rules\<close> is \<^verbatim>\<open>None\<close>.
\<close>

fun scan_zones ::
  "GeofenceZone list \<Rightarrow> real \<Rightarrow> real \<Rightarrow> real
     \<Rightarrow> py_error + (GeofenceZone option \<times> geo_violation list \<times> string)" where
  "scan_zones [] lat lon billboard_area_m2 = Inr (None, [], ''compliant'')"
| "scan_zones (zone # zones) lat lon billboard_area_m2 =
     (case point_in_polygon lat lon (coordinates zone) of
        Inl e \<Rightarrow> Inl e
      | Inr False \<Rightarrow> scan_zones zones lat lon billboard_area_m2
      | Inr True \<Rightarrow>
          if prohibited zone then
            (case special_rules zone of
               None \<Rightarrow> Inl AttributeError
             | Some rules \<Rightarrow>
                 Inr (Some zone,
                      [\<lparr>g_type = ''prohibited_zone'', g_severity = 5,
                        g_reason = [Lit ''Billboard prohibited in '', Lit (zone_name zone)],
                        g_extra = [(''details'',
                                    dict_get rules ''reason'' (PStr ''Zone restriction''))]\<rparr>],
                      ''prohibited''))
          else if billboard_area_m2 > size_limit_m2 zone then
            Inr (Some zone,
                 [\<lparr>g_type = ''size_exceeds_zone_limit'', g_severity = 4,
                   g_reason = [Lit ''Area '', Repr billboard_area_m2,
                               Lit (m2 @ '' exceeds zone limit of ''),
                               Repr (size_limit_m2 zone), Lit m2],
                   g_extra = [(''zone'', PStr (zone_name zone))]\<rparr>],
                 ''non_compliant'')
          else Inr (Some zone, [], ''compliant''))"

text \<open>The list \<^verbatim>\<open>sensitive_locations\<close> of \<^verbatim>\<open>_check_buffer_distances\<close>:
  name, lat, lon, buffer in metres.\<close>

definition sensitive_locations :: "(string \<times> real \<times> real \<times> int) list" where
  "sensitive_locations =
     [(''DAV Public School'', 30.3548, 76.3628, 100),
      (''Gurudwara Singh Sabha'', 30.3562, 76.3645, 75),
      (''Children's Park'', 30.3535, 76.3605, 50)]"

fun buffer_loop ::
  "(string \<times> real \<times> real \<times> int) list \<Rightarrow> real \<Rightarrow> real \<Rightarrow> geo_violation list" where
  "buffer_loop [] lat lon = []"
| "buffer_loop ((loc_name, loc_lat, loc_lon, buffer_m) # locations) lat lon =
     (let distance = haversine_distance lat lon loc_lat loc_lon
      in (if distance < of_int buffer_m
          then [\<lparr>g_type = ''buffer_violation'', g_severity = 4,
                 g_reason = [Lit ''Only '', F0 distance, Lit (''m from '' @ loc_name),
                             Lit ('' (min: '' @ str_int buffer_m @ ''m)'')],
                 g_extra = [(''location'', PStr loc_name),
                            (''required_distance'', PInt buffer_m),
                            (''actual_distance'', PFloat (py_round1 distance))]\<rparr>]
          else []) @ buffer_loop locations lat lon)"

definition check_buffer_distances :: "real \<Rightarrow> real \<Rightarrow> geo_violation list" where
  "check_buffer_distances lat lon = buffer_loop sensitive_locations lat lon"

text \<open>\<^verbatim>\<open>_generate_recommendations\<close>.\<close>

definition generate_recommendations ::
  "geo_violation list \<Rightarrow> GeofenceZone option \<Rightarrow> fstring list" where
  "generate_recommendations violations zone_info =
     (if list_ex (\<lambda>v. g_type v = ''prohibited_zone'') violations
      then [[Lit ''Relocate billboard outside restricted zone''],
            [Lit ''Consider alternative advertising methods for this area'']]
      else [])
     @ (if list_ex (\<lambda>v. g_type v = ''size_exceeds_zone_limit'') violations
        then [[Lit ''Reduce billboard size to comply with zone limit'']]
             @ (case zone_info of
                  None \<Rightarrow> []
                | Some z \<Rightarrow> [[Lit ''Maximum allowed area: '', Repr (size_limit_m2 z), Lit m2]])
        else [])
     @ (if list_ex (\<lambda>v. g_type v = ''buffer_violation'') violations
        then [[Lit ''Relocate billboard to maintain required buffer distances''],
              [Lit ''Check municipal guidelines for sensitive area buffers'']]
        else [])
     @ (if violations = []
        then [[Lit ''Location complies with current regulations''],
              [Lit ''Ensure proper licensing and size compliance'']]
        else [])"

record zone_info_dict =
  zi_zone_id :: pyval
  zi_zone_name :: pyval
  zi_max_billboards :: pyval
  zi_size_limit_m2 :: pyval

definition zone_info_of :: "GeofenceZone option \<Rightarrow> zone_info_dict" where
  "zone_info_of zone_info =
     (case zone_info of
        None \<Rightarrow> \<lparr>zi_zone_id = PNone, zi_zone_name = PStr ''Unzoned area'',
                 zi_max_billboards = PStr ''No limit'',
                 zi_size_limit_m2 = PStr ''Standard limit applies''\<rparr>
      | Some z \<Rightarrow> \<lparr>zi_zone_id = PStr (zone_id z), zi_zone_name = PStr (zone_name z),
                   zi_max_billboards = PInt (max_billboards z),
                   zi_size_limit_m2 = PFloat (size_limit_m2 z)\<rparr>)"

record location_result =
  compliance_status :: string
  zone_info :: zone_info_dict
  violations :: "geo_violation list"
  recommendations :: "fstring list"

text \<open>
  \<^verbatim>\<open>check_location_compliance\<close>: the zone loop, then the buffer check, whose violations
  are appended and, when there is one, set the status to \<^verbatim>\<open>non_compliant\<close>.
\<close>

definition check_location_compliance ::
  "BillboardGeofence \<Rightarrow> real \<Rightarrow> real \<Rightarrow> real \<Rightarrow> py_error + location_result" where
  "check_location_compliance self lat lon billboard_area_m2 =
     (case scan_zones (restricted_zones self) lat lon billboard_area_m2 of
        Inl e \<Rightarrow> Inl e
      | Inr (zone, zone_violations, zone_status) \<Rightarrow>
          (let buffer_violations = check_buffer_distances lat lon;
               all_violations = zone_violations @ buffer_violations;
               status = (if buffer_violations \<noteq> [] then ''non_compliant'' else zone_status)
           in Inr \<lparr>compliance_status = status,
                   zone_info = zone_info_of zone,
                   violations = all_violations,
                   recommendations = generate_recommendations all_violations zone\<rparr>))"

text \<open>The registry of \<^verbatim>\<open>check_permitted_database\<close>: license id, lat, lon, status.\<close>

record registry_record =
  rec_license_id :: string
  rec_lat :: real
  rec_lon :: real
  rec_status :: string

definition permitted_billboards :: "registry_record list" where
  "permitted_billboards =
     [\<lparr>rec_license_id = ''LIC-CHD-001'', rec_lat = 30.3555, rec_lon = 76.3651,
       rec_status = ''active''\<rparr>,
      \<lparr>rec_license_id = ''LIC-CHD-002'', rec_lat = 30.3542, rec_lon = 76.3620,
       rec_status = ''active''\<rparr>,
      \<lparr>rec_license_id = ''LIC-CHD-003'', rec_lat = 30.3598, rec_lon = 76.3712,
       rec_status = ''active''\<rparr>,
      \<lparr>rec_license_id = ''LIC-CHD-004'', rec_lat = 30.3521, rec_lon = 76.3589,
       rec_status = ''expired''\<rparr>]"

text \<open>The search loop: the first record with the license id.\<close>

fun find_record :: "registry_record list \<Rightarrow> string \<Rightarrow> registry_record option" where
  "find_record [] license_id = None"
| "find_record (r # rs) license_id =
     (if rec_license_id r = license_id then Some r else find_record rs license_id)"

text \<open>\<^verbatim>\<open>_get_database_reason\<close>.\<close>

definition get_database_reason :: "bool \<Rightarrow> bool \<Rightarrow> real \<Rightarrow> fstring" where
  "get_database_reason license_valid location_match distance_m =
     (if \<not> license_valid \<and> \<not> location_match
      then [Lit ''License expired and location mismatch ('', F1 distance_m,
            Lit ''m from registered)'']
      else if \<not> license_valid then [Lit ''License has expired'']
      else if \<not> location_match
      then [Lit ''Location mismatch: '', F1 distance_m, Lit ''m from registered location'']
      else [Lit ''License valid and location matches registered coordinates''])"

text \<open>The dict that \<^verbatim>\<open>check_permitted_database\<close> returns; a key that the
  \<^verbatim>\<open>not_found\<close> dict lacks is \<open>None\<close>.\<close>

record database_result =
  database_status :: string
  license_valid :: bool
  location_match :: bool
  distance_from_registered :: "real option"
  registered_location :: "(real \<times> real) option"
  license_status :: "string option"
  db_reason :: fstring

definition check_permitted_database :: "string \<Rightarrow> real \<Rightarrow> real \<Rightarrow> database_result" where
  "check_permitted_database license_id lat lon =
     (case find_record permitted_billboards license_id of
        None \<Rightarrow>
          \<lparr>database_status = ''not_found'', license_valid = False, location_match = False,
           distance_from_registered = None, registered_location = None,
           license_status = None,
           db_reason = [Lit (''License '' @ license_id @ '' not found in municipal database'')]\<rparr>
      | Some matching_record \<Rightarrow>
          (let distance_m = haversine_distance lat lon (rec_lat matching_record)
                              (rec_lon matching_record);
               loc_match = (distance_m \<le> 50.0);
               lic_valid = (rec_status matching_record = ''active'')
           in \<lparr>database_status = ''found'', license_valid = lic_valid,
               location_match = loc_match,
               distance_from_registered = Some (py_round1 distance_m),
               registered_location = Some (rec_lat matching_record, rec_lon matching_record),
               license_status = Some (rec_status matching_record),
               db_reason = get_database_reason lic_valid loc_match distance_m\<rparr>))"



subsection \<open>Strings: \<^verbatim>\<open>str.strip\<close>, \<^verbatim>\<open>str.lower\<close>, \<^verbatim>\<open>in\<close>, \<^verbatim>\<open>str.join\<close>\<close>

text \<open>\<^verbatim>\<open>str.isspace\<close> on the code points below 256.\<close>

definition py_isspace :: "char \<Rightarrow> bool" where
  "py_isspace c =
     (let n = (of_char c :: nat)
      in (9 \<le> n \<and> n \<le> 13) \<or> (28 \<le> n \<and> n \<le> 32) \<or> n = 133 \<or> n = 160)"

definition strip :: "string \<Rightarrow> string" where
  "strip s = rev (dropWhile py_isspace (rev (dropWhile py_isspace s)))"

definition lower_char :: "char \<Rightarrow> char" where
  "lower_char c =
     (let n = (of_char c :: nat)
      in if (65 \<le> n \<and> n \<le> 90) \<or> (192 \<le> n \<and> n \<le> 222 \<and> n \<noteq> 215)
         then char_of (n + 32) else c)"

definition lower :: "string \<Rightarrow> string" where
  "lower s = map lower_char s"

text \<open>\<^verbatim>\<open>kw in text\<close>: \<open>kw\<close> occurs in \<open>text\<close> as a contiguous run.\<close>

fun str_contains :: "string \<Rightarrow> string \<Rightarrow> bool" where
  "str_contains kw [] = (kw = [])"
| "str_contains kw (c # cs) = (prefix kw (c # cs) \<or> str_contains kw cs)"

fun join :: "string \<Rightarrow> string list \<Rightarrow> string" where
  "join sep [] = []"
| "join sep [s] = s"
| "join sep (s # t # ss) = s @ sep @ join sep (t # ss)"

subsection \<open>Rules engine (\<^verbatim>\<open>rules.py\<close>)\<close>

datatype ViolationType = SIZE_VIOLATION | PLACEMENT_VIOLATION | LICENSE_MISSING
  | LICENSE_INVALID | OBSCENE_CONTENT | JUNCTION_PROXIMITY

record ViolationRule =
  rule_type :: ViolationType
  threshold :: real
  severity :: int
  description :: string
  enabled :: bool

record Detection =
  bbox :: "real list"
  est_width_m :: real
  est_height_m :: real
  license_id :: "string option"
  ocr_text :: "string option"
  confidence :: real

text \<open>The dataclass \<^verbatim>\<open>Violation\<close>; its fields carry the prefix \<open>v_\<close> here.\<close>

record Violation =
  v_rule_type :: ViolationType
  v_severity :: int
  v_reason :: fstring
  v_confidence :: real
  v_metadata :: "(string \<times> pyval) list"

text \<open>The state of a \<^verbatim>\<open>BillboardRulesEngine\<close>.\<close>

record BillboardRulesEngine =
  rules :: "ViolationRule list"
  obscene_keywords :: "string list"

text \<open>
  \<^verbatim>\<open>_load_default_rules\<close>. The two arguments are the environment variables
  \<^verbatim>\<open>CITY_MAX_AREA\<close> and \<^verbatim>\<open>CITY_MIN_DIST\<close> as floats, \<open>None\<close> when unset.
\<close>

definition load_default_rules :: "real option \<Rightarrow> real option \<Rightarrow> ViolationRule list" where
  "load_default_rules city_max_area city_min_dist =
     [\<lparr>rule_type = SIZE_VIOLATION,
       threshold = (case city_max_area of None \<Rightarrow> 48.0 | Some t \<Rightarrow> t),
       severity = 4,
       description = ''Billboard exceeds maximum permitted area'', enabled = True\<rparr>,
      \<lparr>rule_type = JUNCTION_PROXIMITY,
       threshold = (case city_min_dist of None \<Rightarrow> 50.0 | Some t \<Rightarrow> t),
       severity = 3,
       description = ''Billboard too close to traffic junction'', enabled = True\<rparr>,
      \<lparr>rule_type = LICENSE_MISSING, threshold = 1.0, severity = 5,
       description = ''No valid license displayed on billboard'', enabled = True\<rparr>,
      \<lparr>rule_type = OBSCENE_CONTENT, threshold = 0.7, severity = 5,
       description = ''Billboard contains inappropriate content'', enabled = True\<rparr>,
      \<lparr>rule_type = LICENSE_INVALID, threshold = 1.0, severity = 5,
       description = ''License not found in municipal registry'', enabled = True\<rparr>]"

text \<open>\<^verbatim>\<open>BillboardRulesEngine.__init__\<close>.\<close>

definition rules_engine_init :: "real option \<Rightarrow> real option \<Rightarrow> BillboardRulesEngine" where
  "rules_engine_init city_max_area city_min_dist =
     \<lparr>rules = load_default_rules city_max_area city_min_dist,
      obscene_keywords = [''explicit'', ''adult'', ''xxx'', ''gambling'', ''tobacco'',
                          ''alcohol'', ''drugs'', ''violence'', ''hate'']\<rparr>"

text \<open>
  \<^verbatim>\<open>_check_size_violation\<close>. The confidence divides by \<^verbatim>\<open>max_area\<close>, which raises
  \<^verbatim>\<open>ZeroDivisionError\<close> when the threshold is zero.
\<close>

definition check_size_violation :: "Detection \<Rightarrow> ViolationRule \<Rightarrow> py_error + Violation option" where
  "check_size_violation detection rule =
     (let area = est_width_m detection * est_height_m detection;
          max_area = threshold rule
      in if area > max_area then
           (if max_area = 0 then Inl ZeroDivisionError
            else Inr (Some \<lparr>v_rule_type = rule_type rule,
                            v_severity = severity rule,
                            v_reason = [Lit ''Area '', F1 area,
                                        Lit (m2 @ '' exceeds limit of ''), Repr max_area, Lit m2],
                            v_confidence = min 0.9 ((area - max_area) / max_area),
                            v_metadata = [(''actual_area'', PFloat area),
                                          (''max_area'', PFloat max_area)]\<rparr>))
         else Inr None)"

text \<open>
  A junction feature. \<open>j_coordinates\<close> is \<^verbatim>\<open>junction["geometry"]["coordinates"]\<close>, \<open>None\<close>
  when a key is missing or a value cannot be subscripted (\<^verbatim>\<open>KeyError\<close>, \<^verbatim>\<open>TypeError\<close>);
  \<open>j_name\<close> is the name under \<^verbatim>\<open>properties\<close>, \<open>None\<close> when \<^verbatim>\<open>properties\<close> or \<^verbatim>\<open>name\<close>
  is missing. \<^verbatim>\<open>properties\<close>, when present, is a dict.
\<close>

record junction =
  j_coordinates :: "real list option"
  j_name :: "string option"

text \<open>
  The loop of \<^verbatim>\<open>_check_junction_proximity\<close>. \<^verbatim>\<open>KeyError\<close>, \<^verbatim>\<open>IndexError\<close> and
  \<^verbatim>\<open>TypeError\<close> are caught and the junction is skipped; the division of the confidence
  stands inside the \<^verbatim>\<open>try\<close>, and a \<^verbatim>\<open>ZeroDivisionError\<close> is not caught.
\<close>

fun junction_loop ::
  "real \<Rightarrow> real \<Rightarrow> ViolationRule \<Rightarrow> junction list \<Rightarrow> py_error + Violation option" where
  "junction_loop lat lon rule [] = Inr None"
| "junction_loop lat lon rule (j # js) =
     (let min_distance = threshold rule
      in case j_coordinates j of
           None \<Rightarrow> junction_loop lat lon rule js
         | Some [] \<Rightarrow> junction_loop lat lon rule js
         | Some [j_lon] \<Rightarrow> junction_loop lat lon rule js
         | Some (j_lon # j_lat # rest) \<Rightarrow>
             (let distance = haversine_distance lat lon j_lat j_lon
              in if distance < min_distance then
                   (let junction_name = (case j_name j of None \<Rightarrow> ''Unknown Junction''
                                         | Some n \<Rightarrow> n)
                    in if min_distance = 0 then Inl ZeroDivisionError
                       else Inr (Some \<lparr>v_rule_type = rule_type rule,
                                       v_severity = severity rule,
                                       v_reason = [Lit ''Only '', F0 distance,
                                                   Lit (''m from '' @ junction_name @ '' (min: ''),
                                                   Repr min_distance, Lit ''m)''],
                                       v_confidence =
                                         min 0.9 ((min_distance - distance) / min_distance),
                                       v_metadata = [(''distance'', PFloat distance),
                                                     (''junction_name'', PStr junction_name)]\<rparr>))
                 else junction_loop lat lon rule js))"

text \<open>\<^verbatim>\<open>_check_junction_proximity\<close>; \<^verbatim>\<open>not junctions_data\<close> holds for \<^verbatim>\<open>None\<close> and
  for the empty list.\<close>

definition check_junction_proximity ::
  "real \<Rightarrow> real \<Rightarrow> ViolationRule \<Rightarrow> junction list option \<Rightarrow> py_error + Violation option" where
  "check_junction_proximity lat lon rule junctions_data =
     (case junctions_data of
        None \<Rightarrow> Inr None
      | Some js \<Rightarrow> if js = [] then Inr None else junction_loop lat lon rule js)"

text \<open>\<^verbatim>\<open>_check_license_missing\<close>; \<^verbatim>\<open>not detection.license_id\<close> holds for \<^verbatim>\<open>None\<close> and
  for the empty string.\<close>

definition check_license_missing :: "Detection \<Rightarrow> ViolationRule \<Rightarrow> Violation option" where
  "check_license_missing detection rule =
     (if (case license_id detection of None \<Rightarrow> True | Some l \<Rightarrow> l = '''' \<or> strip l = '''')
      then Some \<lparr>v_rule_type = rule_type rule,
                 v_severity = severity rule,
                 v_reason = [Lit ''No license number detected on billboard''],
                 v_confidence = 0.8,
                 v_metadata = [(''ocr_text'', (case ocr_text detection of None \<Rightarrow> PNone
                                               | Some t \<Rightarrow> PStr t))]\<rparr>
      else None)"

text \<open>\<^verbatim>\<open>_check_license_invalid\<close>; the registry check is a function from the license
  string to a truth value, \<open>None\<close> when the caller passes none.\<close>

definition check_license_invalid ::
  "Detection \<Rightarrow> ViolationRule \<Rightarrow> (string \<Rightarrow> bool) option \<Rightarrow> Violation option" where
  "check_license_invalid detection rule registry_check_func =
     (case license_id detection of
        None \<Rightarrow> None
      | Some l \<Rightarrow>
          (case registry_check_func of
             None \<Rightarrow> None
           | Some check \<Rightarrow>
               if l = '''' then None
               else (let is_valid = check (strip l)
                     in if \<not> is_valid
                        then Some \<lparr>v_rule_type = rule_type rule,
                                   v_severity = severity rule,
                                   v_reason = [Lit (''License '' @ l @ '' not found in registry'')],
                                   v_confidence = 0.9,
                                   v_metadata = [(''license_id'', PStr l)]\<rparr>
                        else None)))"

text \<open>\<^verbatim>\<open>_check_obscene_content\<close>.\<close>

definition check_obscene_content ::
  "BillboardRulesEngine \<Rightarrow> Detection \<Rightarrow> ViolationRule \<Rightarrow> Violation option" where
  "check_obscene_content self detection rule =
     (case ocr_text detection of
        None \<Rightarrow> None
      | Some t \<Rightarrow>
          if t = '''' then None
          else (let text_lower = lower t;
                    found_keywords = filter (\<lambda>kw. str_contains kw text_lower)
                                       (obscene_keywords self)
                in if found_keywords \<noteq> []
                   then Some \<lparr>v_rule_type = rule_type rule,
                              v_severity = severity rule,
                              v_reason = [Lit (''Inappropriate content detected: ''
                                               @ join '', '' found_keywords)],
                              v_confidence = min 0.95 (real (length found_keywords) * 0.3),
                              v_metadata = [(''keywords'', PList (map PStr found_keywords)),
                                            (''full_text'', PStr t)]\<rparr>
                   else None))"

text \<open>The dispatch of \<^verbatim>\<open>evaluate_detection\<close> on one enabled rule: the
  \<^verbatim>\<open>if\<close>/\<^verbatim>\<open>elif\<close> chain in its order.\<close>

definition check_rule ::
  "BillboardRulesEngine \<Rightarrow> Detection \<Rightarrow> real \<Rightarrow> real \<Rightarrow> junction list option
     \<Rightarrow> (string \<Rightarrow> bool) option \<Rightarrow> ViolationRule \<Rightarrow> py_error + Violation option" where
  "check_rule self detection lat lon junctions_data registry_check_func rule =
     (if rule_type rule = SIZE_VIOLATION then check_size_violation detection rule
      else if rule_type rule = JUNCTION_PROXIMITY
      then check_junction_proximity lat lon rule junctions_data
      else if rule_type rule = LICENSE_MISSING then Inr (check_license_missing detection rule)
      else if rule_type rule = LICENSE_INVALID \<and> registry_check_func \<noteq> None
      then Inr (check_license_invalid detection rule registry_check_func)
      else if rule_type rule = OBSCENE_CONTENT
      then Inr (check_obscene_content self detection rule)
      else Inr None)"

text \<open>The loop of \<^verbatim>\<open>evaluate_detection\<close> over \<^verbatim>\<open>self.rules\<close>; an exception of a
  check ends the evaluation.\<close>

fun eval_rules ::
  "BillboardRulesEngine \<Rightarrow> ViolationRule list \<Rightarrow> Detection \<Rightarrow> real \<Rightarrow> real
     \<Rightarrow> junction list option \<Rightarrow> (string \<Rightarrow> bool) option \<Rightarrow> py_error + Violation list" where
  "eval_rules self [] detection lat lon junctions_data registry_check_func = Inr []"
| "eval_rules self (rule # rest) detection lat lon junctions_data registry_check_func =
     (if \<not> enabled rule
      then eval_rules self rest detection lat lon junctions_data registry_check_func
      else (case check_rule self detection lat lon junctions_data registry_check_func rule of
              Inl e \<Rightarrow> Inl e
            | Inr violation \<Rightarrow>
                (case eval_rules self rest detection lat lon junctions_data
                        registry_check_func of
                   Inl e \<Rightarrow> Inl e
                 | Inr vs \<Rightarrow> Inr ((case violation of None \<Rightarrow> [] | Some v \<Rightarrow> [v]) @ vs))))"

definition evaluate_detection ::
  "BillboardRulesEngine \<Rightarrow> Detection \<Rightarrow> real \<Rightarrow> real \<Rightarrow> junction list option
     \<Rightarrow> (string \<Rightarrow> bool) option \<Rightarrow> py_error + Violation list" where
  "evaluate_detection self detection lat lon junctions_data registry_check_func =
     eval_rules self (rules self) detection lat lon junctions_data registry_check_func"

text \<open>\<^verbatim>\<open>add_custom_rule\<close> and \<^verbatim>\<open>disable_rule\<close> return the engine they leave behind.\<close>

definition add_custom_rule :: "BillboardRulesEngine \<Rightarrow> ViolationRule \<Rightarrow> BillboardRulesEngine" where
  "add_custom_rule self rule = self\<lparr>rules := rules self @ [rule]\<rparr>"

definition disable_rule :: "BillboardRulesEngine \<Rightarrow> ViolationType \<Rightarrow> BillboardRulesEngine" where
  "disable_rule self rt =
     self\<lparr>rules := map (\<lambda>rule. if rule_type rule = rt then rule\<lparr>enabled := False\<rparr> else rule)
                       (rules self)\<rparr>"

subsection \<open>Size estimation (\<^verbatim>\<open>size_estimation.py\<close>)\<close>




















subsection \<open>Reference notions for the statements\<close>

text \<open>
  The distance from the point to a junction, \<open>None\<close> for a junction that the loop skips
  (no coordinates, or fewer than two), and the first junction of the list that is
  strictly closer than the threshold. They follow the words of the specification and
  are compared with \<open>junction_loop\<close> below.
\<close>

definition junction_distance :: "real \<Rightarrow> real \<Rightarrow> junction \<Rightarrow> real option" where
  "junction_distance lat lon j =
     (case j_coordinates j of
        Some (j_lon # j_lat # rest) \<Rightarrow> Some (haversine_distance lat lon j_lat j_lon)
      | _ \<Rightarrow> None)"

definition first_close_junction :: "real \<Rightarrow> real \<Rightarrow> real \<Rightarrow> junction list \<Rightarrow> junction option" where
  "first_close_junction lat lon t js =
     find (\<lambda>j. case junction_distance lat lon j of None \<Rightarrow> False | Some d \<Rightarrow> d < t) js"

text \<open>A license id is blank when it is absent or empty after trimming.\<close>

definition license_blank :: "string option \<Rightarrow> bool" where
  "license_blank l = (case l of None \<Rightarrow> True | Some s \<Rightarrow> strip s = '''')"

text \<open>The list of an optional violation, as \<^verbatim>\<open>evaluate_detection\<close> appends it.\<close>

definition opt_list :: "'a option \<Rightarrow> 'a list" where
  "opt_list v = (case v of None \<Rightarrow> [] | Some x \<Rightarrow> [x])"

section \<open>Properties\<close>

subsection \<open>Geometry\<close>

lemma haversine_same: "haversine_distance lat lon lat lon = 0"
  by (simp add: haversine_distance_def haversine_a_def radians_def)

text \<open>
  The local \<^verbatim>\<open>a\<close> of the haversine formula is \<open>(1 - cos \<theta>) / 2\<close> for the central angle
  \<open>\<theta>\<close>, hence in \<open>[0, 1]\<close> for all coordinates: \<^verbatim>\<open>math.sqrt\<close> and \<^verbatim>\<open>math.asin\<close> raise
  nothing, and the distance is never negative.
\<close>

lemma sin_half_sq: "(sin (x / 2))\<^sup>2 = (1 - cos x) / (2::real)"
  using cos_double_sin [of "x / 2"] by simp

lemma haversine_a_range:
  "0 \<le> haversine_a lat1 lon1 lat2 lon2 \<and> haversine_a lat1 lon1 lat2 lon2 \<le> 1"
proof -
  define p where "p = radians lat1"
  define q where "q = radians lat2"
  define s where "s = (sin (radians (lon2 - lon1) / 2))\<^sup>2"
  define C where "C = cos (p - q)"
  define D where "D = cos (p + q)"
  have rd: "radians (lat2 - lat1) = q - p"
    by (simp add: radians_def p_def q_def field_simps)
  have s0: "0 \<le> s" by (simp add: s_def)
  have s1: "s \<le> 1" unfolding s_def
    using sin_cos_squared_add [of "radians (lon2 - lon1) / 2"]
      zero_le_power2 [of "cos (radians (lon2 - lon1) / 2)"] by linarith
  have C: "- 1 \<le> C" "C \<le> 1" by (simp_all add: C_def)
  have D: "- 1 \<le> D" "D \<le> 1" by (simp_all add: D_def)
  have cqp: "cos (q - p) = C" unfolding C_def using cos_minus [of "p - q"] by simp
  have h1: "(sin ((q - p) / 2))\<^sup>2 = (1 - C) / 2"
    using sin_half_sq [of "q - p"] cqp by simp
  have h2: "cos p * cos q = (C + D) / 2"
    by (simp add: cos_times_cos C_def D_def)
  have a: "haversine_a lat1 lon1 lat2 lon2 = (1 - C) / 2 + (C + D) / 2 * s"
    unfolding haversine_a_def Let_def rd h1
    unfolding p_def [symmetric] q_def [symmetric] s_def [symmetric] h2 by (rule refl)
  have e: "(1 - C) / 2 + (C + D) / 2 * s = 1 / 2 - (1 - s) * C / 2 + s * D / 2"
    by (simp add: field_simps)
  have u1: "(1 - s) * C \<le> (1 - s) * 1" using s1 C by (intro mult_left_mono) simp_all
  have u2: "(1 - s) * (- 1) \<le> (1 - s) * C" using s1 C by (intro mult_left_mono) simp_all
  have u3: "s * D \<le> s * 1" using s0 D by (intro mult_left_mono) simp_all
  have u4: "s * (- 1) \<le> s * D" using s0 D by (intro mult_left_mono) simp_all
  show ?thesis unfolding a e using u1 u2 u3 u4 by simp
qed

lemma haversine_nonneg: "0 \<le> haversine_distance lat1 lon1 lat2 lon2"
proof -
  have "0 \<le> arcsin (sqrt (haversine_a lat1 lon1 lat2 lon2))"
    using haversine_a_range [of lat1 lon1 lat2 lon2]
    by (intro arcsin_nonneg) simp
  then show ?thesis by (simp add: haversine_distance_def Let_def)
qed

text \<open>
  Between two latitudes in \<open>[-90, 90]\<close> the distance is at least the length of the
  meridian arc between them; with \<open>2 \<le> \<pi>\<close> this gives a bound by rational arithmetic.
\<close>

lemma haversine_lat_bound:
  assumes l1: "- 90 \<le> lat1" "lat1 \<le> 90" and l2: "- 90 \<le> lat2" "lat2 \<le> 90"
  shows "6371000 * \<bar>radians (lat2 - lat1)\<bar> \<le> haversine_distance lat1 lon1 lat2 lon2"
proof -
  define p where "p = radians lat1"
  define q where "q = radians lat2"
  define t where "t = \<bar>q - p\<bar> / 2"
  define a where "a = haversine_a lat1 lon1 lat2 lon2"
  have rng: "- (pi / 2) \<le> radians x \<and> radians x \<le> pi / 2" if "- 90 \<le> x" "x \<le> 90" for x
  proof -
    have "pi * (- 90) \<le> pi * x" "pi * x \<le> pi * 90"
      using that by (intro mult_left_mono; simp)+
    then show ?thesis by (simp add: radians_def field_simps)
  qed
  have pr: "- (pi / 2) \<le> p" "p \<le> pi / 2"
    using rng [OF l1] by (simp_all add: p_def)
  have qr: "- (pi / 2) \<le> q" "q \<le> pi / 2"
    using rng [OF l2] by (simp_all add: q_def)
  have rd: "radians (lat2 - lat1) = q - p"
    by (simp add: radians_def p_def q_def field_simps)
  have t: "0 \<le> t" "t \<le> pi / 2" using pr qr by (simp_all add: t_def)
  have cp: "0 \<le> cos p" using pr by (intro cos_ge_zero)
  have cq: "0 \<le> cos q" using qr by (intro cos_ge_zero)
  have st: "(sin ((q - p) / 2))\<^sup>2 = (sin t)\<^sup>2"
  proof (cases "0 \<le> q - p")
    case True
    then show ?thesis by (simp add: t_def)
  next
    case False
    then have "t = - ((q - p) / 2)" unfolding t_def by linarith
    then show ?thesis by (simp only: sin_minus power2_minus)
  qed
  have "(sin t)\<^sup>2 \<le> a"
    unfolding a_def haversine_a_def Let_def rd st
    using cp cq by (simp add: p_def[symmetric] q_def[symmetric])
  moreover have "0 \<le> sin t" using t by (intro sin_ge_zero) simp_all
  ultimately have "sin t \<le> sqrt a"
    by (metis real_le_rsqrt)
  moreover have "sqrt a \<le> 1" using haversine_a_range [of lat1 lon1 lat2 lon2]
    by (simp add: a_def)
  ultimately have "arcsin (sin t) \<le> arcsin (sqrt a)"
    using \<open>0 \<le> sin t\<close> by (intro arcsin_le_arcsin) simp_all
  moreover have "arcsin (sin t) = t" using t by (intro arcsin_sin) simp_all
  ultimately have "\<bar>q - p\<bar> \<le> 2 * arcsin (sqrt a)" by (simp add: t_def)
  then show ?thesis
    by (simp add: haversine_distance_def Let_def a_def rd)
qed

lemma haversine_lat_bound2:
  assumes "- 90 \<le> lat1" "lat1 \<le> 90" "- 90 \<le> lat2" "lat2 \<le> 90"
    and "b * 90 \<le> 6371000 * \<bar>lat2 - lat1\<bar>"
  shows "b \<le> haversine_distance lat1 lon1 lat2 lon2"
proof -
  have "\<bar>lat2 - lat1\<bar> * 2 \<le> \<bar>lat2 - lat1\<bar> * pi"
    using pi_ge_two by (intro mult_left_mono) simp_all
  moreover have "\<bar>radians (lat2 - lat1)\<bar> = \<bar>lat2 - lat1\<bar> * pi / 180"
    unfolding radians_def by (simp add: abs_mult)
  ultimately have "\<bar>lat2 - lat1\<bar> / 90 \<le> \<bar>radians (lat2 - lat1)\<bar>"
    by simp
  then have "6371000 * (\<bar>lat2 - lat1\<bar> / 90) \<le> 6371000 * \<bar>radians (lat2 - lat1)\<bar>"
    by (intro mult_left_mono) simp_all
  moreover have "b \<le> 6371000 * (\<bar>lat2 - lat1\<bar> / 90)" using assms(5) by (simp add: field_simps)
  ultimately show ?thesis
    using haversine_lat_bound [OF assms(1-4), of lon1 lon2] by linarith
qed

text \<open>
  An iteration of the ray-casting loop never reads \<^verbatim>\<open>xinters\<close> unbound: inside the three
  nested tests the two ordinates differ, so \<^verbatim>\<open>xinters\<close> has just been assigned.
\<close>

lemma edge_step_no_raise: "\<exists>st'. edge_step x y p1 p2 st = Inr st'"
  by (cases p1; cases p2; cases st)
    (auto simp: edge_step_def Let_def min_def max_def split: if_splits)

lemma pip_loop_no_raise: "\<exists>b. pip_loop x y p1 ps st = Inr b"
proof (induction ps arbitrary: p1 st)
  case Nil
  show ?case by simp
next
  case (Cons p2 ps)
  obtain st' where "edge_step x y p1 p2 st = Inr st'"
    using edge_step_no_raise by blast
  with Cons show ?case by simp
qed

lemma point_in_polygon_returns:
  "polygon \<noteq> [] \<Longrightarrow> \<exists>b. point_in_polygon lat lon polygon = Inr b"
  by (cases polygon) (simp_all add: point_in_polygon_def pip_loop_no_raise)

text \<open>
  A point whose \<^verbatim>\<open>lat\<close> is not above the second component of any vertex is outside: the
  first test of every iteration fails.
\<close>

lemma edge_step_below:
  "y \<le> snd p1 \<Longrightarrow> y \<le> snd p2 \<Longrightarrow> edge_step x y p1 p2 st = Inr st"
  by (cases p1; cases p2; cases st) (auto simp: edge_step_def min_def)

lemma pip_loop_below:
  "y \<le> snd p1 \<Longrightarrow> \<forall>p\<in>set ps. y \<le> snd p \<Longrightarrow> pip_loop x y p1 ps st = Inr (fst st)"
  by (induction ps arbitrary: p1) (simp_all add: edge_step_below)

lemma point_in_polygon_below:
  "polygon \<noteq> [] \<Longrightarrow> \<forall>p\<in>set polygon. lat \<le> snd p \<Longrightarrow>
     point_in_polygon lat lon polygon = Inr False"
  by (cases polygon) (simp_all add: point_in_polygon_def pip_loop_below)




subsection \<open>Geofence engine\<close>

lemma scan_zones_prohibited:
  assumes "\<forall>z'\<in>set zones. coordinates z' \<noteq> []"
    and "find (\<lambda>z. point_in_polygon lat lon (coordinates z) = Inr True) zones = Some z"
    and "prohibited z" and "special_rules z = Some sr"
  shows "scan_zones zones lat lon area =
           Inr (Some z,
                [\<lparr>g_type = ''prohibited_zone'', g_severity = 5,
                  g_reason = [Lit ''Billboard prohibited in '', Lit (zone_name z)],
                  g_extra = [(''details'',
                              dict_get sr ''reason'' (PStr ''Zone restriction''))]\<rparr>],
                ''prohibited'')"
  using assms
proof (induction zones)
  case Nil
  then show ?case by simp
next
  case (Cons z0 zones)
  have "coordinates z0 \<noteq> []" using Cons.prems(1) by simp
  then obtain b where b: "point_in_polygon lat lon (coordinates z0) = Inr b"
    using point_in_polygon_returns by blast
  show ?case
  proof (cases b)
    case True
    with b Cons.prems show ?thesis by simp
  next
    case False
    with b Cons show ?thesis by simp
  qed
qed





lemma buffer_empty_hospital: "check_buffer_distances 30.3525 76.3585 = []"
proof -
  have 1: "100 \<le> haversine_distance 30.3525 76.3585 30.3548 76.3628"
    by (rule haversine_lat_bound2) simp_all
  have 2: "75 \<le> haversine_distance 30.3525 76.3585 30.3562 76.3645"
    by (rule haversine_lat_bound2) simp_all
  have 3: "50 \<le> haversine_distance 30.3525 76.3585 30.3535 76.3605"
    by (rule haversine_lat_bound2) simp_all
  show ?thesis using 1 2 3
    by (simp add: check_buffer_distances_def sensitive_locations_def Let_def not_less)
qed




text \<open>
  The vertices of the zones of \<^verbatim>\<open>_load_restricted_zones\<close> are written \<^verbatim>\<open>(lat, lon)\<close>, near
  \<open>(30.36, 76.36)\<close>, and \<^verbatim>\<open>_point_in_polygon\<close> reads them as \<^verbatim>\<open>(x, y)\<close> with
  \<^verbatim>\<open>x, y = lon, lat\<close> for the point. So no point of latitude up to 76 is inside any of
  them, and the centre of the hospital zone as the data give it is answered
  \<^verbatim>\<open>compliant\<close> with no violation.
\<close>

lemma default_zones_miss:
  "lat \<le> 76 \<Longrightarrow> scan_zones load_restricted_zones lat lon area = Inr (None, [], ''compliant'')"
  by (simp add: load_restricted_zones_def point_in_polygon_below)

lemma hospital_centre:
  "check_location_compliance geofence_init 30.3525 76.3585 0 =
     Inr \<lparr>compliance_status = ''compliant'',
          zone_info = zone_info_of None, violations = [],
          recommendations = [[Lit ''Location complies with current regulations''],
                             [Lit ''Ensure proper licensing and size compliance'']]\<rparr>"
  using default_zones_miss [of "30.3525" "76.3585" 0] buffer_empty_hospital
  by (simp add: check_location_compliance_def geofence_init_def
        generate_recommendations_def Let_def)

lemma edge_step_above:
  "snd p1 < y \<Longrightarrow> snd p2 < y \<Longrightarrow> edge_step x y p1 p2 st = Inr st"
  by (cases p1; cases p2; cases st) (auto simp: edge_step_def max_def)

lemma pip_loop_above:
  "snd p1 < y \<Longrightarrow> \<forall>p\<in>set ps. snd p < y \<Longrightarrow> pip_loop x y p1 ps st = Inr (fst st)"
  by (induction ps arbitrary: p1) (simp_all add: edge_step_above)

lemma point_in_polygon_above:
  "polygon \<noteq> [] \<Longrightarrow> \<forall>p\<in>set polygon. snd p < lat \<Longrightarrow>
     point_in_polygon lat lon polygon = Inr False"
  by (cases polygon) (simp_all add: point_in_polygon_def pip_loop_above)

text \<open>
  With the shipped zones the overwriting of the status cannot be observed: a point that
  the test reports inside a prohibited zone has a latitude between 76 and 77, thousands
  of kilometres from every sensitive site, so no buffer violation fires and the status
  is \<^verbatim>\<open>prohibited\<close>.
\<close>

lemma buffer_empty_far_north:
  assumes "76 \<le> lat" "lat \<le> 77"
  shows "check_buffer_distances lat lon = []"
proof -
  have 1: "100 \<le> haversine_distance lat lon 30.3548 76.3628"
    using assms by (intro haversine_lat_bound2) simp_all
  have 2: "75 \<le> haversine_distance lat lon 30.3562 76.3645"
    using assms by (intro haversine_lat_bound2) simp_all
  have 3: "50 \<le> haversine_distance lat lon 30.3535 76.3605"
    using assms by (intro haversine_lat_bound2) simp_all
  show ?thesis using 1 2 3
    by (simp add: check_buffer_distances_def sensitive_locations_def Let_def not_less)
qed

lemma shipped_zones_prohibited_status:
  assumes f: "find (\<lambda>z. point_in_polygon lat lon (coordinates z) = Inr True)
                load_restricted_zones = Some z"
    and p: "prohibited z"
  shows "check_buffer_distances lat lon = []
         \<and> map_sum id compliance_status (check_location_compliance geofence_init lat lon area)
             = Inr ''prohibited''"
proof -
  from f have m: "z \<in> set load_restricted_zones"
    and t: "point_in_polygon lat lon (coordinates z) = Inr True"
    by (auto simp: find_Some_iff)
  from m obtain sr where sr: "special_rules z = Some sr"
    by (auto simp: load_restricted_zones_def)
  have ne: "\<forall>z'\<in>set load_restricted_zones. coordinates z' \<noteq> []"
    by (simp add: load_restricted_zones_def)
  have lo: "76 \<le> lat"
  proof (rule ccontr)
    assume "\<not> 76 \<le> lat"
    then have "point_in_polygon lat lon (coordinates z) = Inr False"
      using m by (intro point_in_polygon_below) (auto simp: load_restricted_zones_def)
    with t show False by simp
  qed
  have hi: "lat \<le> 77"
  proof (rule ccontr)
    assume "\<not> lat \<le> 77"
    then have "point_in_polygon lat lon (coordinates z) = Inr False"
      using m by (intro point_in_polygon_above) (auto simp: load_restricted_zones_def)
    with t show False by simp
  qed
  have b: "check_buffer_distances lat lon = []"
    using lo hi by (rule buffer_empty_far_north)
  show ?thesis
    using scan_zones_prohibited [OF ne f p sr, of area] b
    by (simp add: check_location_compliance_def geofence_init_def Let_def)
qed




text \<open>
  C4. When no record of the registry has the license id, \<^verbatim>\<open>check_permitted_database\<close>
  returns \<^verbatim>\<open>not_found\<close> with \<^verbatim>\<open>license_valid\<close> and \<^verbatim>\<open>location_match\<close> false. When a record
  has it, the status is \<^verbatim>\<open>found\<close>, \<^verbatim>\<open>location_match\<close> is true exactly when the haversine
  distance to the registered coordinates is at most 50 (so a distance of exactly 50
  matches and one of 50.001 does not), and \<^verbatim>\<open>license_valid\<close> is true exactly when the
  record's status is \<^verbatim>\<open>active\<close>.
\<close>

theorem check_permitted_database_spec:
  "((\<forall>r\<in>set permitted_billboards. rec_license_id r \<noteq> l) \<longrightarrow>
       database_status (check_permitted_database l lat lon) = ''not_found''
       \<and> \<not> license_valid (check_permitted_database l lat lon)
       \<and> \<not> location_match (check_permitted_database l lat lon))
   \<and> (\<forall>r\<in>set permitted_billboards. rec_license_id r = l \<longrightarrow>
         database_status (check_permitted_database l lat lon) = ''found''
         \<and> location_match (check_permitted_database l lat lon)
             = (haversine_distance lat lon (rec_lat r) (rec_lon r) \<le> 50)
         \<and> license_valid (check_permitted_database l lat lon)
             = (rec_status r = ''active''))"
  by (auto simp: permitted_billboards_def check_permitted_database_def Let_def)

theorem check_permitted_database_spec_witness:
  "database_status (check_permitted_database ''LIC-XYZ'' 30.3555 76.3651) = ''not_found''
   \<and> \<not> license_valid (check_permitted_database ''LIC-XYZ'' 30.3555 76.3651)
   \<and> \<not> location_match (check_permitted_database ''LIC-XYZ'' 30.3555 76.3651)
   \<and> location_match (check_permitted_database ''LIC-CHD-004'' 30.3521 76.3589)
   \<and> \<not> license_valid (check_permitted_database ''LIC-CHD-004'' 30.3521 76.3589)
   \<and> license_valid (check_permitted_database ''LIC-CHD-001'' 30.3565 76.3651)
   \<and> \<not> location_match (check_permitted_database ''LIC-CHD-001'' 30.3565 76.3651)"
proof -
  have far: "51 \<le> haversine_distance 30.3565 76.3651 30.3555 76.3651"
    by (rule haversine_lat_bound2) simp_all
  have same: "haversine_distance 30.3521 76.3589 30.3521 76.3589 = 0"
    by (rule haversine_same)
  show ?thesis
    using check_permitted_database_spec [of "''LIC-XYZ''" "30.3555" "76.3651"]
      check_permitted_database_spec [of "''LIC-CHD-004''" "30.3521" "76.3589"]
      check_permitted_database_spec [of "''LIC-CHD-001''" "30.3565" "76.3651"]
      far same
    by (simp add: permitted_billboards_def)
qed



subsection \<open>Rules engine\<close>


text \<open>
  The loop of \<^verbatim>\<open>_check_junction_proximity\<close> against the reference notions: it returns
  the violation of the first junction strictly closer than the threshold, and raises
  nothing (a distance is never negative, so a threshold above it is not zero).
\<close>

lemma junction_loop_first:
  "\<exists>r. junction_loop lat lon rule js = Inr r \<and>
     (case first_close_junction lat lon (threshold rule) js of
        None \<Rightarrow> r = None
      | Some j \<Rightarrow>
          (case junction_distance lat lon j of
             None \<Rightarrow> False
           | Some d \<Rightarrow>
               d < threshold rule \<and>
               r = Some \<lparr>v_rule_type = rule_type rule,
                         v_severity = severity rule,
                         v_reason = [Lit ''Only '', F0 d,
                                     Lit (''m from ''
                                          @ (case j_name j of None \<Rightarrow> ''Unknown Junction''
                                             | Some n \<Rightarrow> n) @ '' (min: ''),
                                     Repr (threshold rule), Lit ''m)''],
                         v_confidence = min 0.9 ((threshold rule - d) / threshold rule),
                         v_metadata = [(''distance'', PFloat d),
                                       (''junction_name'',
                                        PStr (case j_name j of None \<Rightarrow> ''Unknown Junction''
                                              | Some n \<Rightarrow> n))]\<rparr>))"
proof (induction js)
  case Nil
  show ?case by (simp add: first_close_junction_def)
next
  case (Cons j js)
  show ?case
  proof (cases "junction_distance lat lon j")
    case None
    then have skip: "junction_loop lat lon rule (j # js) = junction_loop lat lon rule js"
      by (auto simp: junction_distance_def Let_def split: option.splits list.splits)
    from None have "first_close_junction lat lon (threshold rule) (j # js)
        = first_close_junction lat lon (threshold rule) js"
      by (simp add: first_close_junction_def)
    with skip Cons show ?thesis by simp
  next
    case (Some d)
    then obtain j_lon j_lat rest where
      c: "j_coordinates j = Some (j_lon # j_lat # rest)"
      and d: "d = haversine_distance lat lon j_lat j_lon"
      by (auto simp: junction_distance_def split: option.splits list.splits)
    show ?thesis
    proof (cases "d < threshold rule")
      case True
      have "0 \<le> d" unfolding d by (rule haversine_nonneg)
      with True have nz: "threshold rule \<noteq> 0" by linarith
      have f: "first_close_junction lat lon (threshold rule) (j # js) = Some j"
        using Some True by (simp add: first_close_junction_def)
      show ?thesis
        unfolding f using Some True nz c d
        by (simp add: Let_def)
    next
      case False
      then have skip: "junction_loop lat lon rule (j # js) = junction_loop lat lon rule js"
        using c d by (simp add: Let_def)
      from False Some have "first_close_junction lat lon (threshold rule) (j # js)
          = first_close_junction lat lon (threshold rule) js"
        by (simp add: first_close_junction_def)
      with skip Cons show ?thesis by simp
    qed
  qed
qed

lemma junction_never_raises:
  "\<exists>r. check_junction_proximity lat lon rule jd = Inr r"
  using junction_loop_first [of lat lon rule]
  by (cases jd) (auto simp: check_junction_proximity_def)

lemma junction_rule_type:
  "check_junction_proximity lat lon rule jd = Inr (Some v) \<Longrightarrow> v_rule_type v = rule_type rule"
proof (cases jd)
  case None
  assume "check_junction_proximity lat lon rule jd = Inr (Some v)"
  with None show ?thesis by (simp add: check_junction_proximity_def)
next
  case (Some js)
  assume a: "check_junction_proximity lat lon rule jd = Inr (Some v)"
  with Some have l: "junction_loop lat lon rule js = Inr (Some v)"
    by (simp add: check_junction_proximity_def split: if_splits)
  from junction_loop_first [of lat lon rule js] l show ?thesis
    by (auto split: option.splits)
qed



text \<open>A violation carries the type of the rule that produced it.\<close>

lemma size_rule_type:
  "check_size_violation d rule = Inr (Some v) \<Longrightarrow> v_rule_type v = rule_type rule"
  by (auto simp: check_size_violation_def Let_def split: if_splits)

lemma missing_rule_type:
  "check_license_missing d rule = Some v \<Longrightarrow> v_rule_type v = rule_type rule"
  by (auto simp: check_license_missing_def split: if_splits)

lemma invalid_rule_type:
  "check_license_invalid d rule f = Some v \<Longrightarrow> v_rule_type v = rule_type rule"
  by (auto simp: check_license_invalid_def Let_def split: option.splits if_splits)

lemma obscene_rule_type:
  "check_obscene_content self d rule = Some v \<Longrightarrow> v_rule_type v = rule_type rule"
  by (auto simp: check_obscene_content_def Let_def split: option.splits if_splits)

lemma check_rule_type:
  "check_rule self d lat lon jd f rule = Inr (Some v) \<Longrightarrow> v_rule_type v = rule_type rule"
  unfolding check_rule_def
  by (auto split: if_splits
      dest: size_rule_type junction_rule_type missing_rule_type invalid_rule_type
        obscene_rule_type)

text \<open>
  Disabling the rules of one type: the disabled rules are skipped, the other rules are
  the same objects, and the checks read only \<^verbatim>\<open>self.obscene_keywords\<close> of the engine.
\<close>

lemma check_rule_self:
  assumes k: "obscene_keywords self' = obscene_keywords self"
  shows "check_rule self' d lat lon jd f rule = check_rule self d lat lon jd f rule"
  unfolding check_rule_def check_obscene_content_def k by (rule refl)

lemma eval_rules_disable:
  assumes k: "obscene_keywords self' = obscene_keywords self"
  shows "eval_rules self rs d lat lon jd f = Inr vs \<Longrightarrow>
     eval_rules self'
       (map (\<lambda>rule. if rule_type rule = R then rule\<lparr>enabled := False\<rparr> else rule) rs)
       d lat lon jd f = Inr (filter (\<lambda>v. v_rule_type v \<noteq> R) vs)"
proof (induction rs arbitrary: vs)
  case Nil
  then show ?case by simp
next
  case (Cons rule rs)
  show ?case
  proof (cases "enabled rule")
    case False
    with Cons show ?thesis by simp
  next
    case True
    from Cons.prems True obtain violation vs' where
      c: "check_rule self d lat lon jd f rule = Inr violation"
      and r: "eval_rules self rs d lat lon jd f = Inr vs'"
      and vs: "vs = (case violation of None \<Rightarrow> [] | Some v \<Rightarrow> [v]) @ vs'"
      by (auto split: sum.splits)
    note ih = Cons.IH [OF r]
    have ty: "violation = Some v \<Longrightarrow> v_rule_type v = rule_type rule" for v
      using c check_rule_type by blast
    show ?thesis
    proof (cases "rule_type rule = R")
      case True
      then show ?thesis using ih vs ty by (auto split: option.splits)
    next
      case False
      then show ?thesis
        using ih vs ty c \<open>enabled rule\<close> check_rule_self [OF k]
        by (auto split: option.splits)
    qed
  qed
qed

text \<open>
  C9. If \<^verbatim>\<open>evaluate_detection\<close> returns the violations \<open>vs\<close>, then after
  \<^verbatim>\<open>disable_rule(R)\<close> the evaluation on the same inputs returns \<open>vs\<close> without its
  violations of type \<open>R\<close>: none of type \<open>R\<close> is left, and for every other type the
  violations are the same, in the same order.
\<close>

theorem disable_rule_frame:
  "evaluate_detection self d lat lon jd f = Inr vs \<Longrightarrow>
     (\<exists>vs'. evaluate_detection (disable_rule self R) d lat lon jd f = Inr vs'
        \<and> vs' = filter (\<lambda>v. v_rule_type v \<noteq> R) vs
        \<and> filter (\<lambda>v. v_rule_type v = R) vs' = []
        \<and> (\<forall>T. T \<noteq> R \<longrightarrow>
              filter (\<lambda>v. v_rule_type v = T) vs' = filter (\<lambda>v. v_rule_type v = T) vs))"
proof -
  assume a: "evaluate_detection self d lat lon jd f = Inr vs"
  have k: "obscene_keywords (disable_rule self R) = obscene_keywords self"
    by (simp add: disable_rule_def)
  have "evaluate_detection (disable_rule self R) d lat lon jd f
          = Inr (filter (\<lambda>v. v_rule_type v \<noteq> R) vs)"
    using eval_rules_disable [OF k, of "rules self" d lat lon jd f vs R] a
    by (simp add: evaluate_detection_def disable_rule_def)
  moreover have "filter (\<lambda>v. v_rule_type v = T) (filter (\<lambda>v. v_rule_type v \<noteq> R) vs)
      = filter (\<lambda>v. v_rule_type v = T) vs" if "T \<noteq> R" for T
    using that by (induction vs) auto
  ultimately show ?thesis by (auto simp: filter_empty_conv)
qed

theorem disable_rule_frame_witness:
  "map_sum id (map v_rule_type)
     (evaluate_detection (rules_engine_init None None)
        \<lparr>bbox = [50, 50, 400, 250], est_width_m = 15, est_height_m = 5,
         license_id = None, ocr_text = None, confidence = 0.92\<rparr>
        30.3555 76.3651 None None)
     = Inr [SIZE_VIOLATION, LICENSE_MISSING]
   \<and> map_sum id (map v_rule_type)
       (evaluate_detection (disable_rule (rules_engine_init None None) SIZE_VIOLATION)
          \<lparr>bbox = [50, 50, 400, 250], est_width_m = 15, est_height_m = 5,
           license_id = None, ocr_text = None, confidence = 0.92\<rparr>
          30.3555 76.3651 None None)
     = Inr [LICENSE_MISSING]"
proof -
  have "\<exists>vs. evaluate_detection (rules_engine_init None None)
        \<lparr>bbox = [50, 50, 400, 250], est_width_m = 15, est_height_m = 5,
         license_id = None, ocr_text = None, confidence = 0.92\<rparr>
        30.3555 76.3651 None None = Inr vs
      \<and> map v_rule_type vs = [SIZE_VIOLATION, LICENSE_MISSING]"
    by (simp add: evaluate_detection_def rules_engine_init_def load_default_rules_def
        check_rule_def check_size_violation_def check_junction_proximity_def
        check_license_missing_def check_obscene_content_def Let_def)
  then obtain vs where
    e: "evaluate_detection (rules_engine_init None None)
        \<lparr>bbox = [50, 50, 400, 250], est_width_m = 15, est_height_m = 5,
         license_id = None, ocr_text = None, confidence = 0.92\<rparr>
        30.3555 76.3651 None None = Inr vs"
    and m: "map v_rule_type vs = [SIZE_VIOLATION, LICENSE_MISSING]" by auto
  from m obtain a b where vs: "vs = [a, b]" and ab: "v_rule_type a = SIZE_VIOLATION"
    "v_rule_type b = LICENSE_MISSING"
    by (auto simp: map_eq_Cons_conv)
  from disable_rule_frame [OF e, of SIZE_VIOLATION] e vs ab show ?thesis by auto
qed

text \<open>
  The evaluation with the default rules (no environment variable set) raises nothing
  and returns the violations of the five rules in their order.
\<close>

lemma eval_default:
  "\<exists>sv jv.
     check_size_violation d (load_default_rules None None ! 0) = Inr sv
     \<and> check_junction_proximity lat lon (load_default_rules None None ! 1) jd = Inr jv
     \<and> evaluate_detection (rules_engine_init None None) d lat lon jd f =
         Inr (opt_list sv @ opt_list jv
              @ opt_list (check_license_missing d (load_default_rules None None ! 2))
              @ opt_list (check_obscene_content (rules_engine_init None None) d
                            (load_default_rules None None ! 3))
              @ opt_list (case f of None \<Rightarrow> None
                          | Some c \<Rightarrow> check_license_invalid d
                                        (load_default_rules None None ! 4) f))"
proof -
  have "\<exists>sv. check_size_violation d (load_default_rules None None ! 0) = Inr sv"
    by (cases "48 < est_width_m d * est_height_m d")
      (simp_all add: check_size_violation_def load_default_rules_def Let_def)
  then obtain sv where
    sv: "check_size_violation d (load_default_rules None None ! 0) = Inr sv" by blast
  obtain jv where
    jv: "check_junction_proximity lat lon (load_default_rules None None ! 1) jd = Inr jv"
    using junction_never_raises by blast
  have "evaluate_detection (rules_engine_init None None) d lat lon jd f =
         Inr (opt_list sv @ opt_list jv
              @ opt_list (check_license_missing d (load_default_rules None None ! 2))
              @ opt_list (check_obscene_content (rules_engine_init None None) d
                            (load_default_rules None None ! 3))
              @ opt_list (case f of None \<Rightarrow> None
                          | Some c \<Rightarrow> check_license_invalid d
                                        (load_default_rules None None ! 4) f))"
    using sv jv
    by (cases f)
      (simp_all add: evaluate_detection_def rules_engine_init_def load_default_rules_def
        check_rule_def opt_list_def)
  with sv jv show ?thesis by blast
qed

lemma filter_opt_list:
  "(\<And>v. x = Some v \<Longrightarrow> v_rule_type v = rt) \<Longrightarrow>
     filter (\<lambda>v. v_rule_type v = T) (opt_list x) = (if rt = T then opt_list x else [])"
  by (cases x) (auto simp: opt_list_def)

lemma default_rule_types:
  "rule_type (load_default_rules a b ! 0) = SIZE_VIOLATION"
  "rule_type (load_default_rules a b ! 1) = JUNCTION_PROXIMITY"
  "rule_type (load_default_rules a b ! Suc 0) = JUNCTION_PROXIMITY"
  "rule_type (load_default_rules a b ! 2) = LICENSE_MISSING"
  "rule_type (load_default_rules a b ! 3) = OBSCENE_CONTENT"
  "rule_type (load_default_rules a b ! 4) = LICENSE_INVALID"
  by (simp_all add: load_default_rules_def)

lemma default_rule_severities:
  "severity (load_default_rules a b ! 0) = 4"
  "severity (load_default_rules a b ! 1) = 3"
  "severity (load_default_rules a b ! Suc 0) = 3"
  "severity (load_default_rules a b ! 2) = 5"
  "severity (load_default_rules a b ! 3) = 5"
  "severity (load_default_rules a b ! 4) = 5"
  by (simp_all add: load_default_rules_def)

lemma eval_default_by_type:
  "\<exists>sv jv vs.
     check_size_violation d (load_default_rules None None ! 0) = Inr sv
     \<and> check_junction_proximity lat lon (load_default_rules None None ! 1) jd = Inr jv
     \<and> evaluate_detection (rules_engine_init None None) d lat lon jd f = Inr vs
     \<and> filter (\<lambda>v. v_rule_type v = SIZE_VIOLATION) vs = opt_list sv
     \<and> filter (\<lambda>v. v_rule_type v = JUNCTION_PROXIMITY) vs = opt_list jv
     \<and> filter (\<lambda>v. v_rule_type v = LICENSE_MISSING) vs
         = opt_list (check_license_missing d (load_default_rules None None ! 2))
     \<and> filter (\<lambda>v. v_rule_type v = OBSCENE_CONTENT) vs
         = opt_list (check_obscene_content (rules_engine_init None None) d
                       (load_default_rules None None ! 3))
     \<and> filter (\<lambda>v. v_rule_type v = LICENSE_INVALID) vs
         = opt_list (case f of None \<Rightarrow> None
                     | Some c \<Rightarrow> check_license_invalid d (load_default_rules None None ! 4) f)"
proof -
  obtain sv jv where
    sv: "check_size_violation d (load_default_rules None None ! 0) = Inr sv"
    and jv: "check_junction_proximity lat lon (load_default_rules None None ! 1) jd = Inr jv"
    and ev: "evaluate_detection (rules_engine_init None None) d lat lon jd f =
         Inr (opt_list sv @ opt_list jv
              @ opt_list (check_license_missing d (load_default_rules None None ! 2))
              @ opt_list (check_obscene_content (rules_engine_init None None) d
                            (load_default_rules None None ! 3))
              @ opt_list (case f of None \<Rightarrow> None
                          | Some c \<Rightarrow> check_license_invalid d
                                        (load_default_rules None None ! 4) f))"
    using eval_default [of d lat lon jd f] by blast
  have t0: "sv = Some v \<Longrightarrow> v_rule_type v = SIZE_VIOLATION" for v
    using sv size_rule_type [of d "load_default_rules None None ! 0" v]
    by (simp add: default_rule_types)
  have t1: "jv = Some v \<Longrightarrow> v_rule_type v = JUNCTION_PROXIMITY" for v
    using jv junction_rule_type [of lat lon "load_default_rules None None ! 1" jd v]
    by (simp add: default_rule_types)
  have t2: "check_license_missing d (load_default_rules None None ! 2) = Some v
      \<Longrightarrow> v_rule_type v = LICENSE_MISSING" for v
    using missing_rule_type [of d "load_default_rules None None ! 2" v]
    by (simp add: default_rule_types)
  have t3: "check_obscene_content (rules_engine_init None None) d
        (load_default_rules None None ! 3) = Some v
      \<Longrightarrow> v_rule_type v = OBSCENE_CONTENT" for v
    using obscene_rule_type [of "rules_engine_init None None" d
        "load_default_rules None None ! 3" v]
    by (simp add: default_rule_types)
  have t4: "(case f of None \<Rightarrow> None
             | Some c \<Rightarrow> check_license_invalid d (load_default_rules None None ! 4) f) = Some v
      \<Longrightarrow> v_rule_type v = LICENSE_INVALID" for v
    using invalid_rule_type [of d "load_default_rules None None ! 4" f v]
    by (cases f) (simp_all add: default_rule_types)
  show ?thesis
    using sv jv ev
    by (simp add: filter_opt_list [OF t0] filter_opt_list [OF t1] filter_opt_list [OF t2]
        filter_opt_list [OF t3] filter_opt_list [OF t4])
qed






text \<open>
  C6. \<^verbatim>\<open>_check_license_missing\<close> produces a violation, with the rule's type and
  severity and the fixed confidence 0.8, exactly when the license id is absent or blank
  after trimming; \<^verbatim>\<open>None\<close>, the empty string and three spaces are blank and \<^verbatim>\<open>X\<close> is not.
  With the default rules the evaluation returns exactly one \<^verbatim>\<open>LICENSE_MISSING\<close>
  violation, of severity 5, when the license id is blank, and none otherwise.
\<close>

theorem license_missing_rule:
  "check_license_missing d rule =
     (if license_blank (license_id d)
      then Some \<lparr>v_rule_type = rule_type rule,
                 v_severity = severity rule,
                 v_reason = [Lit ''No license number detected on billboard''],
                 v_confidence = 0.8,
                 v_metadata = [(''ocr_text'', (case ocr_text d of None \<Rightarrow> PNone
                                               | Some t \<Rightarrow> PStr t))]\<rparr>
      else None)
   \<and> license_blank None \<and> license_blank (Some '''') \<and> license_blank (Some ''   '')
   \<and> \<not> license_blank (Some ''X'')
   \<and> (\<exists>vs. evaluate_detection (rules_engine_init None None) d lat lon jd f = Inr vs
        \<and> filter (\<lambda>v. v_rule_type v = LICENSE_MISSING) vs =
            (if license_blank (license_id d)
             then [\<lparr>v_rule_type = LICENSE_MISSING,
                    v_severity = 5,
                    v_reason = [Lit ''No license number detected on billboard''],
                    v_confidence = 0.8,
                    v_metadata = [(''ocr_text'', (case ocr_text d of None \<Rightarrow> PNone
                                                  | Some t \<Rightarrow> PStr t))]\<rparr>]
             else []))"
proof -
  have s0: "strip '''' = ''''" by (simp add: strip_def)
  have a: "check_license_missing d rule =
     (if license_blank (license_id d)
      then Some \<lparr>v_rule_type = rule_type rule,
                 v_severity = severity rule,
                 v_reason = [Lit ''No license number detected on billboard''],
                 v_confidence = 0.8,
                 v_metadata = [(''ocr_text'', (case ocr_text d of None \<Rightarrow> PNone
                                               | Some t \<Rightarrow> PStr t))]\<rparr>
      else None)" for rule
    by (auto simp: check_license_missing_def license_blank_def s0 split: option.splits)
  have b: "license_blank None \<and> license_blank (Some '''') \<and> license_blank (Some ''   '')
      \<and> \<not> license_blank (Some ''X'')"
    by (simp add: license_blank_def strip_def py_isspace_def)
  obtain vs where
    ev: "evaluate_detection (rules_engine_init None None) d lat lon jd f = Inr vs"
    and fs: "filter (\<lambda>v. v_rule_type v = LICENSE_MISSING) vs
         = opt_list (check_license_missing d (load_default_rules None None ! 2))"
    using eval_default_by_type [of d lat lon jd f] by blast
  have c: "filter (\<lambda>v. v_rule_type v = LICENSE_MISSING) vs =
            (if license_blank (license_id d)
             then [\<lparr>v_rule_type = LICENSE_MISSING,
                    v_severity = 5,
                    v_reason = [Lit ''No license number detected on billboard''],
                    v_confidence = 0.8,
                    v_metadata = [(''ocr_text'', (case ocr_text d of None \<Rightarrow> PNone
                                                  | Some t \<Rightarrow> PStr t))]\<rparr>]
             else [])"
    unfolding fs a by (simp add: opt_list_def default_rule_types default_rule_severities)
  from a b ev c show ?thesis by blast
qed

theorem license_missing_rule_witness:
  "check_license_missing
     \<lparr>bbox = [150, 150, 350, 250], est_width_m = 6, est_height_m = 2.5,
      license_id = Some ''   '', ocr_text = Some ''Best Deals in Town'',
      confidence = 0.78\<rparr> (load_default_rules None None ! 2)
     = Some \<lparr>v_rule_type = LICENSE_MISSING, v_severity = 5,
             v_reason = [Lit ''No license number detected on billboard''],
             v_confidence = 0.8,
             v_metadata = [(''ocr_text'', PStr ''Best Deals in Town'')]\<rparr>
   \<and> check_license_missing
       \<lparr>bbox = [150, 150, 350, 250], est_width_m = 6, est_height_m = 2.5,
        license_id = Some ''X'', ocr_text = Some ''Best Deals in Town'',
        confidence = 0.78\<rparr> (load_default_rules None None ! 2) = None"
  using license_missing_rule
      [of "\<lparr>bbox = [150, 150, 350, 250], est_width_m = 6, est_height_m = 2.5,
            license_id = Some ''   '', ocr_text = Some ''Best Deals in Town'',
            confidence = 0.78\<rparr>" "load_default_rules None None ! 2" 0 0 None None]
    license_missing_rule
      [of "\<lparr>bbox = [150, 150, 350, 250], est_width_m = 6, est_height_m = 2.5,
            license_id = Some ''X'', ocr_text = Some ''Best Deals in Town'',
            confidence = 0.78\<rparr>" "load_default_rules None None ! 2" 0 0 None None]
  by (simp add: load_default_rules_def)

text \<open>
  C10. For a license id that is not empty and consists of whitespace only, and a
  registry check \<open>check\<close>, the evaluation with the default rules returns the
  \<^verbatim>\<open>LICENSE_MISSING\<close> violation and, exactly when \<open>check\<close> is false on the empty string
  (the trimmed license id), also the \<^verbatim>\<open>LICENSE_INVALID\<close> violation: the guard of
  \<^verbatim>\<open>_check_license_invalid\<close> tests the untrimmed string.
\<close>

theorem blank_license_both_violations:
  "license_id d = Some l \<Longrightarrow> l \<noteq> '''' \<Longrightarrow> strip l = '''' \<Longrightarrow>
     \<exists>vs. evaluate_detection (rules_engine_init None None) d lat lon jd (Some check) = Inr vs
        \<and> filter (\<lambda>v. v_rule_type v = LICENSE_MISSING) vs =
            [\<lparr>v_rule_type = LICENSE_MISSING,
              v_severity = 5,
              v_reason = [Lit ''No license number detected on billboard''],
              v_confidence = 0.8,
              v_metadata = [(''ocr_text'', (case ocr_text d of None \<Rightarrow> PNone
                                            | Some t \<Rightarrow> PStr t))]\<rparr>]
        \<and> filter (\<lambda>v. v_rule_type v = LICENSE_INVALID) vs =
            (if check '''' then []
             else [\<lparr>v_rule_type = LICENSE_INVALID,
                    v_severity = 5,
                    v_reason = [Lit (''License '' @ l @ '' not found in registry'')],
                    v_confidence = 0.9,
                    v_metadata = [(''license_id'', PStr l)]\<rparr>])"
proof -
  assume l: "license_id d = Some l" "l \<noteq> ''''" "strip l = ''''"
  obtain vs where
    ev: "evaluate_detection (rules_engine_init None None) d lat lon jd (Some check) = Inr vs"
    and fm: "filter (\<lambda>v. v_rule_type v = LICENSE_MISSING) vs
         = opt_list (check_license_missing d (load_default_rules None None ! 2))"
    and fi: "filter (\<lambda>v. v_rule_type v = LICENSE_INVALID) vs
         = opt_list (case Some check of None \<Rightarrow> None
                     | Some c \<Rightarrow> check_license_invalid d (load_default_rules None None ! 4)
                                   (Some check))"
    using eval_default_by_type [of d lat lon jd "Some check"] by blast
  have m: "filter (\<lambda>v. v_rule_type v = LICENSE_MISSING) vs =
            [\<lparr>v_rule_type = LICENSE_MISSING,
              v_severity = 5,
              v_reason = [Lit ''No license number detected on billboard''],
              v_confidence = 0.8,
              v_metadata = [(''ocr_text'', (case ocr_text d of None \<Rightarrow> PNone
                                            | Some t \<Rightarrow> PStr t))]\<rparr>]"
    unfolding fm using l
    by (simp add: opt_list_def check_license_missing_def default_rule_types
        default_rule_severities)
  have i: "filter (\<lambda>v. v_rule_type v = LICENSE_INVALID) vs =
            (if check '''' then []
             else [\<lparr>v_rule_type = LICENSE_INVALID,
                    v_severity = 5,
                    v_reason = [Lit (''License '' @ l @ '' not found in registry'')],
                    v_confidence = 0.9,
                    v_metadata = [(''license_id'', PStr l)]\<rparr>])"
    unfolding fi using l
    by (simp add: opt_list_def check_license_invalid_def default_rule_types
        default_rule_severities Let_def)
  from ev m i show ?thesis by blast
qed

theorem blank_license_both_violations_witness:
  "\<exists>vs. evaluate_detection (rules_engine_init None None)
          \<lparr>bbox = [150, 150, 350, 250], est_width_m = 6, est_height_m = 2.5,
           license_id = Some ''   '', ocr_text = Some ''Best Deals in Town'',
           confidence = 0.78\<rparr> 30.3555 76.3651 None (Some (\<lambda>l. False)) = Inr vs
     \<and> map v_rule_type (filter (\<lambda>v. v_rule_type v = LICENSE_MISSING) vs) = [LICENSE_MISSING]
     \<and> filter (\<lambda>v. v_rule_type v = LICENSE_INVALID) vs =
         [\<lparr>v_rule_type = LICENSE_INVALID, v_severity = 5,
           v_reason = [Lit ''License     not found in registry''],
           v_confidence = 0.9,
           v_metadata = [(''license_id'', PStr ''   '')]\<rparr>]"
proof -
  have s: "strip ''   '' = ''''"
    by (simp add: strip_def py_isspace_def)
  from blank_license_both_violations
    [of "\<lparr>bbox = [150, 150, 350, 250], est_width_m = 6, est_height_m = 2.5,
          license_id = Some ''   '', ocr_text = Some ''Best Deals in Town'',
          confidence = 0.78\<rparr>" "''   ''" "30.3555" "76.3651" None "\<lambda>l. False"] s
  show ?thesis by auto
qed

subsection \<open>Size estimation\<close>








end
